theory Spec2Isabelle
  imports Main "HOL-Library.AList"
begin

section \<open>JavaScript values\<close>

text \<open>
  A \<open>Date\<close> is its number of milliseconds since the epoch. Every handler reads the clock
  through \<open>new Date()\<close>; the model passes that reading in as \<open>now\<close>, one reading for each
  request. The billing provider reports times in seconds, and \<open>new Date(s * 1000)\<close>
  converts them.
\<close>

type_synonym date = int

definition date_of_seconds :: "int \<Rightarrow> date" where
  "date_of_seconds s = s * 1000"

text \<open>
  Truthiness of an optional string: \<open>undefined\<close>, \<open>null\<close> and the empty string are
  falsy. Of the numbers, \<open>0\<close> is falsy.
\<close>

definition truthy_str :: "string option \<Rightarrow> bool" where
  "truthy_str v = (case v of None \<Rightarrow> False | Some s \<Rightarrow> s \<noteq> [])"

text \<open>\<open>x || d\<close> on an optional string, and \<open>x ? x : d\<close> on an optional number.\<close>

definition or_str :: "string option \<Rightarrow> string \<Rightarrow> string" where
  "or_str v d = (case v of None \<Rightarrow> d | Some s \<Rightarrow> if s \<noteq> [] then s else d)"

definition or_num :: "int option \<Rightarrow> int \<Rightarrow> int" where
  "or_num v d = (case v of None \<Rightarrow> d | Some n \<Rightarrow> if n \<noteq> 0 then n else d)"

text \<open>\<open>x ? new Date(x * 1000) : null\<close>\<close>

definition date_or_null :: "int option \<Rightarrow> date option" where
  "date_or_null v =
     (case v of None \<Rightarrow> None
      | Some n \<Rightarrow> if n \<noteq> 0 then Some (date_of_seconds n) else None)"

text \<open>
  A thrown error object: the fields \<open>type\<close> and \<open>code\<close> that the handlers inspect, and the
  message they echo.
\<close>

record err =
  etype :: "string option"
  ecode :: "string option"
  emessage :: string

text \<open>
  A database call is a promise that may reject. Each handler makes its database calls in a
  fixed source order; \<open>faults k = Some e\<close> says that the call at the handler's \<open>k\<close>-th
  call site (from 0) rejects with \<open>e\<close>.
\<close>

type_synonym faults = "nat \<Rightarrow> err option"

section \<open>Documents\<close>

text \<open>
  The Subscription document of \<open>models/Subscription.model.js\<close>. The paths \<open>email\<close>,
  \<open>userId\<close> and \<open>websiteId\<close> are optional here because the upsert of the payment handler
  writes them from provider metadata without checking that they are present.
  \<open>createdAt\<close> and \<open>updatedAt\<close> come from the schema option \<open>timestamps: true\<close>.
\<close>

record subscription =
  email :: "string option"
  userId :: "string option"
  productId :: string
  websiteId :: "string option"
  subscriptionId :: string
  status :: string
  startDate :: date
  currentPeriodEnd :: date
  canceledAt :: "date option"
  cancelAtPeriodEnd :: bool
  trialEnd :: "date option"
  metadata :: "(string \<times> string) list"
  createdAt :: date
  updatedAt :: date

text \<open>The schema's enumeration of \<open>status\<close>, checked by \<open>save()\<close>.\<close>

definition status_enum :: "string list" where
  "status_enum = [''active'', ''canceled'', ''incomplete'', ''past_due'', ''unpaid'', ''trialing'']"

text \<open>The schema method \<open>isActive\<close>.\<close>

definition isActive :: "subscription \<Rightarrow> date \<Rightarrow> bool" where
  "isActive this now = (status this = ''active'' \<and> currentPeriodEnd this > now)"

text \<open>
  The Website document of \<open>models/Website.model.js\<close>, with the paths that the modelled
  handlers read or write (\<open>_id\<close> is \<open>wid\<close>, \<open>userId\<close> is \<open>w_userId\<close>).
\<close>

record website =
  wid :: string
  w_userId :: string
  templateId :: string
  slug :: string
  customDomain :: string
  isPublished :: bool
  publishedAt :: "date option"
  isCustomDomainVerified :: bool
  domainVerifiedAt :: "date option"

section \<open>Collections\<close>

text \<open>
  A collection is the list of its documents in natural order. \<open>findOne\<close> returns the first
  document that matches; \<open>findOneAndUpdate\<close> changes the first document that matches and,
  with \<open>upsert: true\<close>, inserts a document when none matches; \<open>deleteMany\<close> removes every
  document that matches.
\<close>

definition findOne :: "('a \<Rightarrow> bool) \<Rightarrow> 'a list \<Rightarrow> 'a option" where
  "findOne p xs = find p xs"

fun updateFirst :: "('a \<Rightarrow> bool) \<Rightarrow> ('a \<Rightarrow> 'a) \<Rightarrow> 'a list \<Rightarrow> 'a list" where
  "updateFirst p f [] = []"
| "updateFirst p f (x # xs) = (if p x then f x # xs else x # updateFirst p f xs)"

definition findOneAndUpdate :: "('a \<Rightarrow> bool) \<Rightarrow> ('a \<Rightarrow> 'a) \<Rightarrow> 'a list \<Rightarrow> 'a list" where
  "findOneAndUpdate p f xs = updateFirst p f xs"

definition findOneAndUpsert :: "('a \<Rightarrow> bool) \<Rightarrow> ('a \<Rightarrow> 'a) \<Rightarrow> 'a \<Rightarrow> 'a list \<Rightarrow> 'a list" where
  "findOneAndUpsert p f fresh xs =
     (case find p xs of None \<Rightarrow> xs @ [f fresh] | Some _ \<Rightarrow> updateFirst p f xs)"

definition deleteMany :: "('a \<Rightarrow> bool) \<Rightarrow> 'a list \<Rightarrow> 'a list" where
  "deleteMany p xs = filter (\<lambda>x. \<not> p x) xs"

text \<open>
  An update that carries \<open>undefined\<close> for a path leaves the path as it is; a defined value
  replaces it.
\<close>

definition set_path :: "'a option \<Rightarrow> 'a option \<Rightarrow> 'a option" where
  "set_path new old = (case new of None \<Rightarrow> old | Some v \<Rightarrow> Some v)"

section \<open>Provider objects\<close>

text \<open>
  The fields of the provider's subscription, customer, checkout session and invoice
  objects that the handlers read. \<open>items_product\<close> is \<open>items.data[0]?.price?.product\<close>;
  \<open>line_period_end\<close> and \<open>line_period_start\<close> are \<open>lines?.data[0]?.period?.end\<close> and
  \<open>.start\<close>.
\<close>

record stripe_subscription =
  sub_id :: string
  sub_status :: string
  current_period_start :: int
  current_period_end :: int
  cancel_at_period_end :: bool
  cancel_at :: "int option"
  canceled_at :: "int option"
  trial_end :: "int option"
  sub_metadata :: "(string \<times> string) list"
  items_product :: "string option"

record stripe_customer =
  customer_email :: "string option"

record checkout_session =
  session_subscription :: "string option"
  session_customer :: "string option"
  session_customer_email :: "string option"

record invoice =
  invoice_subscription :: "string option"
  invoice_customer :: "string option"
  line_period_start :: "int option"
  line_period_end :: "int option"

text \<open>
  The provider client: each call returns the provider's object or throws. \<open>update_cancel\<close>
  is \<open>subscriptions.update(id, {cancel_at_period_end: b})\<close>.
\<close>

record stripe_api =
  subscriptions_retrieve :: "string \<Rightarrow> err + stripe_subscription"
  customers_retrieve :: "string option \<Rightarrow> err + stripe_customer"
  subscriptions_cancel :: "string \<Rightarrow> err + stripe_subscription"
  update_cancel :: "string \<Rightarrow> bool \<Rightarrow> err + stripe_subscription"

text \<open>
  A verified event: its \<open>type\<close> with \<open>data.object\<close>. \<open>Other t\<close> is an event of any type
  \<open>t\<close> that the dispatch does not name.
\<close>

datatype event =
    CheckoutSessionCompleted checkout_session
  | InvoicePaymentSucceeded invoice
  | InvoicePaymentFailed invoice
  | CustomerSubscriptionUpdated stripe_subscription
  | CustomerSubscriptionDeleted stripe_subscription
  | CustomerSubscriptionTrialWillEnd stripe_subscription
  | Other string

fun event_type :: "event \<Rightarrow> string" where
  "event_type (CheckoutSessionCompleted _) = ''checkout.session.completed''"
| "event_type (InvoicePaymentSucceeded _) = ''invoice.payment_succeeded''"
| "event_type (InvoicePaymentFailed _) = ''invoice.payment_failed''"
| "event_type (CustomerSubscriptionUpdated _) = ''customer.subscription.updated''"
| "event_type (CustomerSubscriptionDeleted _) = ''customer.subscription.deleted''"
| "event_type (CustomerSubscriptionTrialWillEnd _) = ''customer.subscription.trial_will_end''"
| "event_type (Other t) = t"

section \<open>Responses\<close>

text \<open>
  The \<open>data\<close> of a JSON answer. \<open>CheckData\<close>: subscriptionId, status, currentPeriodEnd,
  cancelAtPeriodEnd, productId. \<open>CancelData\<close>: subscriptionId, canceledImmediately,
  status, cancelAtPeriodEnd, cancelAt, canceledAt, currentPeriodEnd, refundable.
  \<open>PublishData\<close>: websiteId, slug, isPublished, publishedAt (the virtual \<open>publicUrl\<close> is
  left out). \<open>DomainData\<close>: domain, isVerified, verifiedAt. \<open>DeleteData\<close>: websiteId.
\<close>

datatype payload =
    NoData
  | NullData
  | CheckData string string date bool string
  | CancelData string bool string bool "date option" "date option" date bool
  | PublishData string string bool "date option"
  | DomainData string bool "date option"
  | DeleteData string

record response =
  code :: nat
  success :: bool
  message :: "string option"
  error_msg :: "string option"
  requiresSubscription :: bool
  received :: bool
  eventType :: "string option"
  hasActiveSubscription :: "bool option"
  data :: payload

definition reply :: "nat \<Rightarrow> bool \<Rightarrow> string \<Rightarrow> response" where
  "reply c s m =
     \<lparr>code = c, success = s, message = Some m, error_msg = None,
      requiresSubscription = False, received = False, eventType = None,
      hasActiveSubscription = None, data = NoData\<rparr>"

definition reply_error :: "nat \<Rightarrow> string \<Rightarrow> err \<Rightarrow> response" where
  "reply_error c m e = (reply c False m)\<lparr>error_msg := Some (emessage e)\<rparr>"

section \<open>Webhook controller\<close>

text \<open>\<open>handleCheckoutCompleted\<close>: one database call, the upsert.\<close>

definition handleCheckoutCompleted ::
  "stripe_api \<Rightarrow> faults \<Rightarrow> date \<Rightarrow> checkout_session \<Rightarrow> subscription list \<Rightarrow> err + subscription list" where
  "handleCheckoutCompleted api faults now session db =
     (case session_subscription session of
        None \<Rightarrow> Inr db
      | Some sid \<Rightarrow>
          if sid = [] then Inr db
          else
            (case subscriptions_retrieve api sid of
               Inl e \<Rightarrow> Inl e
             | Inr subscription \<Rightarrow>
                 (case customers_retrieve api (session_customer session) of
                    Inl e \<Rightarrow> Inl e
                  | Inr customer \<Rightarrow>
                      let wsId = map_of (sub_metadata subscription) ''websiteId'';
                          usId = map_of (sub_metadata subscription) ''userId'';
                          mail = (if truthy_str (customer_email customer)
                                  then customer_email customer
                                  else session_customer_email session)
                      in
                        if \<not> truthy_str wsId \<or> \<not> truthy_str usId then Inr db
                        else
                          let prod = or_str (items_product subscription) ''unknown'';
                              cpe = date_of_seconds (current_period_end subscription);
                              start = date_of_seconds (current_period_start subscription);
                              upd = (\<lambda>d. d\<lparr>email := set_path mail (email d),
                                            userId := usId,
                                            productId := prod,
                                            websiteId := wsId,
                                            status := sub_status subscription,
                                            startDate := start,
                                            currentPeriodEnd := cpe,
                                            trialEnd := date_or_null (trial_end subscription),
                                            cancelAtPeriodEnd := cancel_at_period_end subscription,
                                            metadata := sub_metadata subscription,
                                            updatedAt := now\<rparr>);
                              fresh = \<lparr>email = None, userId = None, productId = prod,
                                       websiteId = None, subscriptionId = sid,
                                       status = ''incomplete'', startDate = start,
                                       currentPeriodEnd = cpe, canceledAt = None,
                                       cancelAtPeriodEnd = False, trialEnd = None,
                                       metadata = [], createdAt = now, updatedAt = now\<rparr>
                          in
                            (case faults 0 of
                               Some e \<Rightarrow> Inl e
                             | None \<Rightarrow>
                                 Inr (findOneAndUpsert (\<lambda>d. subscriptionId d = sid) upd fresh db)))))"

text \<open>The status mapping shared by the payment and the update handlers.\<close>

definition map_status :: "string \<Rightarrow> string" where
  "map_status s = (if s = ''past_due'' \<or> s = ''unpaid'' then ''incomplete'' else s)"

text \<open>\<open>handlePaymentSucceeded\<close>: the customer is retrieved before the subscription.\<close>

definition handlePaymentSucceeded ::
  "stripe_api \<Rightarrow> faults \<Rightarrow> date \<Rightarrow> invoice \<Rightarrow> subscription list \<Rightarrow> err + subscription list" where
  "handlePaymentSucceeded api faults now invc db =
     (case invoice_subscription invc of
        None \<Rightarrow> Inr db
      | Some sid \<Rightarrow>
          if sid = [] then Inr db
          else
            (case customers_retrieve api (invoice_customer invc) of
               Inl e \<Rightarrow> Inl e
             | Inr customer \<Rightarrow>
                 (case subscriptions_retrieve api sid of
                    Inl e \<Rightarrow> Inl e
                  | Inr subscription \<Rightarrow>
                      let wsId = map_of (sub_metadata subscription) ''websiteId'';
                          usId = map_of (sub_metadata subscription) ''userId'';
                          mail = customer_email customer;
                          prod = or_str (items_product subscription) ''unknown'';
                          cpe = date_of_seconds
                                  (or_num (line_period_end invc) (current_period_end subscription));
                          start = date_of_seconds
                                    (or_num (line_period_start invc) (current_period_start subscription));
                          st = map_status (sub_status subscription);
                          upd = (\<lambda>d. d\<lparr>email := set_path mail (email d),
                                        userId := set_path usId (userId d),
                                        productId := prod,
                                        websiteId := set_path wsId (websiteId d),
                                        status := st,
                                        startDate := start,
                                        currentPeriodEnd := cpe,
                                        cancelAtPeriodEnd := cancel_at_period_end subscription,
                                        trialEnd := date_or_null (trial_end subscription),
                                        updatedAt := now\<rparr>);
                          fresh = \<lparr>email = None, userId = None, productId = prod,
                                   websiteId = None, subscriptionId = sid,
                                   status = ''incomplete'', startDate = start,
                                   currentPeriodEnd = cpe, canceledAt = None,
                                   cancelAtPeriodEnd = False, trialEnd = None,
                                   metadata = [], createdAt = now, updatedAt = now\<rparr>
                      in
                        (case faults 0 of
                           Some e \<Rightarrow> Inl e
                         | None \<Rightarrow>
                             Inr (findOneAndUpsert (\<lambda>d. subscriptionId d = sid) upd fresh db)))))"

text \<open>\<open>handlePaymentFailed\<close>: an update without upsert.\<close>

definition handlePaymentFailed ::
  "faults \<Rightarrow> date \<Rightarrow> invoice \<Rightarrow> subscription list \<Rightarrow> err + subscription list" where
  "handlePaymentFailed faults now invc db =
     (case invoice_subscription invc of
        None \<Rightarrow> Inr db
      | Some sid \<Rightarrow>
          if sid = [] then Inr db
          else
            (case faults 0 of
               Some e \<Rightarrow> Inl e
             | None \<Rightarrow>
                 Inr (findOneAndUpdate (\<lambda>d. subscriptionId d = sid)
                        (\<lambda>d. d\<lparr>status := ''incomplete'', updatedAt := now\<rparr>) db)))"

text \<open>\<open>handleSubscriptionUpdated\<close>: an update without upsert.\<close>

definition handleSubscriptionUpdated ::
  "faults \<Rightarrow> date \<Rightarrow> stripe_subscription \<Rightarrow> subscription list \<Rightarrow> err + subscription list" where
  "handleSubscriptionUpdated faults now subscription db =
     (let sid = sub_id subscription;
          cpe = date_of_seconds (current_period_end subscription);
          st = map_status (sub_status subscription)
      in
        (case faults 0 of
           Some e \<Rightarrow> Inl e
         | None \<Rightarrow>
             Inr (findOneAndUpdate (\<lambda>d. subscriptionId d = sid)
                    (\<lambda>d. d\<lparr>status := st,
                            currentPeriodEnd := cpe,
                            cancelAtPeriodEnd := cancel_at_period_end subscription,
                            canceledAt := date_or_null (canceled_at subscription),
                            trialEnd := date_or_null (trial_end subscription),
                            updatedAt := now\<rparr>) db)))"

text \<open>
  \<open>handleSubscriptionDeleted\<close>: an update without upsert; when no document matches, the
  call returns \<open>null\<close> and the handler only skips its log line.
\<close>

definition handleSubscriptionDeleted ::
  "faults \<Rightarrow> date \<Rightarrow> stripe_subscription \<Rightarrow> subscription list \<Rightarrow> err + subscription list" where
  "handleSubscriptionDeleted faults now subscription db =
     (let sid = sub_id subscription;
          cancelled = (case date_or_null (canceled_at subscription) of
                         Some d \<Rightarrow> d | None \<Rightarrow> now)
      in
        (case faults 0 of
           Some e \<Rightarrow> Inl e
         | None \<Rightarrow>
             Inr (findOneAndUpdate (\<lambda>d. subscriptionId d = sid)
                    (\<lambda>d. d\<lparr>status := ''canceled'',
                            canceledAt := Some cancelled,
                            cancelAtPeriodEnd := False,
                            updatedAt := now\<rparr>) db)))"

text \<open>\<open>handleTrialWillEnd\<close>: a read, then a log line.\<close>

definition handleTrialWillEnd ::
  "faults \<Rightarrow> date \<Rightarrow> stripe_subscription \<Rightarrow> subscription list \<Rightarrow> err + subscription list" where
  "handleTrialWillEnd faults now subscription db =
     (case faults 0 of Some e \<Rightarrow> Inl e | None \<Rightarrow> Inr db)"

text \<open>The \<open>switch\<close> of \<open>handleWebhook\<close>.\<close>

fun dispatch ::
  "stripe_api \<Rightarrow> faults \<Rightarrow> date \<Rightarrow> event \<Rightarrow> subscription list \<Rightarrow> err + subscription list" where
  "dispatch api faults now (CheckoutSessionCompleted s) db = handleCheckoutCompleted api faults now s db"
| "dispatch api faults now (InvoicePaymentSucceeded i) db = handlePaymentSucceeded api faults now i db"
| "dispatch api faults now (InvoicePaymentFailed i) db = handlePaymentFailed faults now i db"
| "dispatch api faults now (CustomerSubscriptionUpdated s) db = handleSubscriptionUpdated faults now s db"
| "dispatch api faults now (CustomerSubscriptionDeleted s) db = handleSubscriptionDeleted faults now s db"
| "dispatch api faults now (CustomerSubscriptionTrialWillEnd s) db = handleTrialWillEnd faults now s db"
| "dispatch api faults now (Other t) db = Inr db"

text \<open>
  \<open>handleWebhook\<close>. \<open>constructed\<close> is the outcome of \<open>stripe.webhooks.constructEvent\<close> on
  the raw body, the signature header and the endpoint secret: the verified event, or the
  error that the verification throws.
\<close>

definition handleWebhook ::
  "stripe_api \<Rightarrow> faults \<Rightarrow> date \<Rightarrow> err + event \<Rightarrow> subscription list \<Rightarrow> response \<times> subscription list" where
  "handleWebhook api faults now constructed db =
     (case constructed of
        Inl e \<Rightarrow> (reply 400 False (''Webhook Error: '' @ emessage e), db)
      | Inr ev \<Rightarrow>
          (case dispatch api faults now ev db of
             Inr db' \<Rightarrow>
               (\<lparr>code = 200, success = True, message = None, error_msg = None,
                 requiresSubscription = False, received = True,
                 eventType = Some (event_type ev),
                 hasActiveSubscription = None, data = NoData\<rparr>, db')
           | Inl e \<Rightarrow> (reply_error 500 ''Webhook handler failed'' e, db)))"

section \<open>Strings\<close>

text \<open>
  The test \<open>/^[0-9a-fA-F]{24}$/\<close> on an identifier. Identifiers are compared as they are
  written.
\<close>

definition is_object_id :: "string \<Rightarrow> bool" where
  "is_object_id s = (length s = 24 \<and> list_all (\<lambda>c. c \<in> set ''0123456789abcdefABCDEF'') s)"

text \<open>\<open>toLowerCase\<close>, on the ASCII letters.\<close>

definition lower_char :: "char \<Rightarrow> char" where
  "lower_char c =
     (case map_of (zip ''ABCDEFGHIJKLMNOPQRSTUVWXYZ'' ''abcdefghijklmnopqrstuvwxyz'') c of
        Some l \<Rightarrow> l | None \<Rightarrow> c)"

definition toLowerCase :: "string \<Rightarrow> string" where
  "toLowerCase s = map lower_char s"

text \<open>
  \<open>validateSlug\<close> of \<open>utils/slugUtils.js\<close>: the pattern \<open>/^[a-z0-9]+(?:-[a-z0-9]+)*$/\<close>
  read from left to right (the flag says whether the current segment has a character
  yet), and a length from 3 to 100.
\<close>

fun slug_segments :: "bool \<Rightarrow> string \<Rightarrow> bool" where
  "slug_segments started [] = started"
| "slug_segments started (c # cs) =
     (if c \<in> set ''abcdefghijklmnopqrstuvwxyz0123456789'' then slug_segments True cs
      else if c = CHR ''-'' \<and> started then slug_segments False cs
      else False)"

definition validateSlug :: "string \<Rightarrow> bool" where
  "validateSlug s = (slug_segments False s \<and> length s \<ge> 3 \<and> length s \<le> 100)"

text \<open>
  The validator of the path \<open>email\<close>, \<open>/^[^\s@]+@[^\s@]+\.[^\s@]+$/\<close>: no white space, one
  \<open>@\<close> with a name before it, and after it a domain with a dot that is neither its first
  nor its last character.
\<close>

definition white_space :: "char list" where
  "white_space = [CHR '' '', CHR 0x09, CHR 0x0A, CHR 0x0B, CHR 0x0C, CHR 0x0D]"

definition email_format :: "string \<Rightarrow> bool" where
  "email_format s =
     (let name_part = takeWhile (\<lambda>c. c \<noteq> CHR ''@'') s;
          rest = dropWhile (\<lambda>c. c \<noteq> CHR ''@'') s
      in name_part \<noteq> [] \<and> rest \<noteq> [] \<and> CHR ''@'' \<notin> set (tl rest) \<and>
         CHR ''.'' \<in> set (butlast (tl (tl rest))) \<and>
         list_all (\<lambda>c. c \<notin> set white_space) s)"

text \<open>
  The cast of a string to an ObjectId, as a query does it: a string of 24 hexadecimal
  digits is cast, and \<open>toString()\<close> of the ObjectId is its lower-case form; any other
  string is a cast error. A stored identifier is an ObjectId, so its \<open>toString()\<close> is the
  lower-case form of the string that the model keeps for it.
\<close>

definition castObjectId :: "string \<Rightarrow> string option" where
  "castObjectId s = (if is_object_id s then Some (toLowerCase s) else None)"

section \<open>Subscription controller\<close>

text \<open>\<open>checkSubscription\<close>: one database call, the \<open>findOne\<close>.\<close>

definition checkSubscription ::
  "faults \<Rightarrow> date \<Rightarrow> string \<Rightarrow> string \<Rightarrow> subscription list \<Rightarrow> response" where
  "checkSubscription faults now usId wsId db =
     (if \<not> is_object_id usId \<or> \<not> is_object_id wsId
      then reply 400 False ''Invalid userId or websiteId''
      else
        (case faults 0 of
           Some e \<Rightarrow> reply_error 500 ''Error checking subscription'' e
         | None \<Rightarrow>
             (case findOne (\<lambda>d. userId d = Some usId \<and> websiteId d = Some wsId \<and>
                               status d = ''active'' \<and> currentPeriodEnd d \<ge> now) db of
                Some s \<Rightarrow>
                  \<lparr>code = 200, success = True, message = None, error_msg = None,
                   requiresSubscription = False, received = False, eventType = None,
                   hasActiveSubscription = Some True,
                   data = CheckData (subscriptionId s) (status s) (currentPeriodEnd s)
                            (cancelAtPeriodEnd s) (productId s)\<rparr>
              | None \<Rightarrow>
                  \<lparr>code = 200, success = True, message = None, error_msg = None,
                   requiresSubscription = False, received = False, eventType = None,
                   hasActiveSubscription = Some False, data = NullData\<rparr>)))"

text \<open>The body of \<open>cancelSubscription\<close>: \<open>{subscriptionId, userId, cancelImmediately = false}\<close>.\<close>

record cancel_request =
  req_subscriptionId :: "string option"
  req_userId :: "string option"
  cancelImmediately :: bool

text \<open>The \<open>catch\<close> block of \<open>cancelSubscription\<close>, in the order of its tests.\<close>

definition cancel_catch :: "err \<Rightarrow> response" where
  "cancel_catch error =
     (if etype error = Some ''StripeInvalidRequestError''
      then reply_error 400 ''Invalid subscription ID or subscription already canceled'' error
      else if ecode error = Some ''resource_missing''
      then reply_error 404 ''Subscription not found in Stripe'' error
      else reply_error 500 ''Failed to cancel subscription'' error)"

text \<open>
  The errors that the runtime throws: \<open>toString\<close> of an absent \<open>userId\<close>, and the
  validation error of \<open>save()\<close>. Neither has a \<open>type\<close> or a \<open>code\<close>.
\<close>

definition type_error :: err where
  "type_error = \<lparr>etype = None, ecode = None, emessage = ''TypeError''\<rparr>"

definition validation_error :: err where
  "validation_error = \<lparr>etype = None, ecode = None, emessage = ''ValidationError''\<rparr>"

text \<open>
  The validation that \<open>save()\<close> runs against the schema before it writes: every required
  path is present (a required string is not empty), \<open>email\<close> has the format of its
  validator, and \<open>status\<close> is in the enumeration. \<open>startDate\<close> and \<open>currentPeriodEnd\<close>, the
  other required paths, are present in every document of this model.
\<close>

definition validate_subscription :: "subscription \<Rightarrow> bool" where
  "validate_subscription doc =
     ((case email doc of None \<Rightarrow> False | Some e \<Rightarrow> e \<noteq> [] \<and> email_format e) \<and>
      userId doc \<noteq> None \<and> productId doc \<noteq> [] \<and> websiteId doc \<noteq> None \<and>
      subscriptionId doc \<noteq> [] \<and> status doc \<in> set status_enum)"

text \<open>
  \<open>subscription.save()\<close>, the handler's second database call. A document that fails the
  validation throws before the database is called. The document is written back over
  the one that was read, and \<open>updatedAt\<close> is stamped.
\<close>

definition save_subscription ::
  "faults \<Rightarrow> date \<Rightarrow> subscription \<Rightarrow> subscription list \<Rightarrow> err + subscription list" where
  "save_subscription faults now doc db =
     (if \<not> validate_subscription doc then Inl validation_error
      else
        (case faults 1 of
           Some e \<Rightarrow> Inl e
         | None \<Rightarrow>
             Inr (updateFirst (\<lambda>d. subscriptionId d = subscriptionId doc)
                    (\<lambda>_. doc\<lparr>updatedAt := now\<rparr>) db)))"

text \<open>
  \<open>cancelSubscription\<close>. The assignment to \<open>endedAt\<close> in the immediate branch sets a
  property that is not a path of the schema, so nothing of it is stored.
\<close>

definition cancelSubscription ::
  "stripe_api \<Rightarrow> faults \<Rightarrow> date \<Rightarrow> cancel_request \<Rightarrow> subscription list \<Rightarrow> response \<times> subscription list" where
  "cancelSubscription api faults now req db =
     (if \<not> truthy_str (req_subscriptionId req)
      then (reply 400 False ''subscriptionId is required'', db)
      else
        let sid = or_str (req_subscriptionId req) [] in
        (case faults 0 of
           Some e \<Rightarrow> (cancel_catch e, db)
         | None \<Rightarrow>
             (case findOne (\<lambda>d. subscriptionId d = sid) db of
                None \<Rightarrow> (reply 404 False ''Subscription not found in database'', db)
              | Some subscription \<Rightarrow>
                  if truthy_str (req_userId req) \<and> userId subscription = None
                  then (cancel_catch type_error, db)
                  else if truthy_str (req_userId req) \<and> userId subscription \<noteq> req_userId req
                  then (reply 403 False ''You don't have permission to cancel this subscription'', db)
                  else if status subscription = ''canceled''
                  then (reply 400 False ''Subscription is already canceled'', db)
                  else if cancelImmediately req
                  then
                    (case subscriptions_cancel api sid of
                       Inl e \<Rightarrow> (cancel_catch e, db)
                     | Inr updated \<Rightarrow>
                         let doc = subscription\<lparr>status := ''canceled'',
                                                 canceledAt := Some now,
                                                 cancelAtPeriodEnd := False,
                                                 currentPeriodEnd := now\<rparr>
                         in
                           (case save_subscription faults now doc db of
                              Inl e \<Rightarrow> (cancel_catch e, db)
                            | Inr db' \<Rightarrow>
                                ((reply 200 True ''Subscription canceled immediately'')
                                   \<lparr>data := CancelData sid True (status doc) (cancelAtPeriodEnd doc)
                                              (Some now) (canceledAt doc) (currentPeriodEnd doc) True\<rparr>,
                                 db')))
                  else
                    (case update_cancel api sid True of
                       Inl e \<Rightarrow> (cancel_catch e, db)
                     | Inr updated \<Rightarrow>
                         let doc = subscription\<lparr>cancelAtPeriodEnd := True,
                                                 canceledAt := Some now,
                                                 status := or_str (Some (sub_status updated)) ''active''\<rparr>;
                             cancelAt = (case date_or_null (cancel_at updated) of
                                           Some d \<Rightarrow> d
                                         | None \<Rightarrow> currentPeriodEnd subscription)
                         in
                           (case save_subscription faults now doc db of
                              Inl e \<Rightarrow> (cancel_catch e, db)
                            | Inr db' \<Rightarrow>
                                ((reply 200 True
                                    ''Subscription will be canceled at the end of billing period'')
                                   \<lparr>data := CancelData sid False (status doc) (cancelAtPeriodEnd doc)
                                              (Some cancelAt) (canceledAt doc) (currentPeriodEnd doc)
                                              False\<rparr>,
                                 db'))))))"

section \<open>Subscription utilities\<close>

text \<open>
  \<open>getBulkSubscriptionStatus\<close>. The query casts \<open>userId\<close> and every requested id to an
  ObjectId; a string that cannot be cast rejects the query. The status map is a JavaScript
  object: an assignment to a key that is present replaces its value, an assignment to a
  new key adds an entry. The default entries are keyed by the requested ids as they are
  written, the entries of the found records by \<open>sub.websiteId.toString()\<close>. On a rejected
  query the function returns the empty object.
\<close>

record status_entry =
  hasActive :: bool
  entry_subscription :: "subscription option"

definition default_entry :: status_entry where
  "default_entry = \<lparr>hasActive = False, entry_subscription = None\<rparr>"

definition found_entry :: "date \<Rightarrow> subscription \<Rightarrow> status_entry" where
  "found_entry now sub =
     (let isValid = currentPeriodEnd sub > now in
      \<lparr>hasActive = isValid, entry_subscription = (if isValid then Some sub else None)\<rparr>)"

definition getBulkSubscriptionStatus ::
  "faults \<Rightarrow> date \<Rightarrow> string \<Rightarrow> string list \<Rightarrow> subscription list \<Rightarrow> (string \<times> status_entry) list" where
  "getBulkSubscriptionStatus faults now usId websiteIds db =
     (case castObjectId usId of
        None \<Rightarrow> []
      | Some uid \<Rightarrow>
          if \<not> list_all is_object_id websiteIds then []
          else
            (case faults 0 of
               Some e \<Rightarrow> []
             | None \<Rightarrow>
                 let wanted = map toLowerCase websiteIds;
                     found = filter (\<lambda>d. map_option toLowerCase (userId d) = Some uid \<and>
                                          (case websiteId d of
                                             None \<Rightarrow> False
                                           | Some w \<Rightarrow> toLowerCase w \<in> set wanted) \<and>
                                          status d = ''active'') db;
                     statusMap = fold (\<lambda>i m. AList.update i default_entry m) websiteIds []
                 in
                   fold (\<lambda>sub m. AList.update (toLowerCase (or_str (websiteId sub) []))
                                    (found_entry now sub) m)
                     found statusMap))"


section \<open>Website controller\<close>

text \<open>The collections that the website handlers touch; a template is its usage count.\<close>

record store =
  websites :: "website list"
  subscriptions :: "subscription list"
  templates :: "(string \<times> int) list"

text \<open>
  The end of \<open>publishWebsite\<close>, after the subscription check: the optional change of slug
  (call site 2 is the search for another website with that slug), then the publication
  flag, its date, and \<open>website.save()\<close> (call site 3).
\<close>

definition publish_update ::
  "faults \<Rightarrow> date \<Rightarrow> bool \<Rightarrow> string option \<Rightarrow> website \<Rightarrow> store \<Rightarrow> response \<times> store" where
  "publish_update faults now pub slugReq site st =
     (let failed = (\<lambda>e. (reply_error 500 ''Error publishing website'' e, st));
          finish = (\<lambda>site1.
            let site2 = site1\<lparr>isPublished := pub,
                               publishedAt := (if pub then Some now else None)\<rparr>
            in
              (case faults 3 of
                 Some e \<Rightarrow> failed e
               | None \<Rightarrow>
                   ((reply 200 True (if pub then ''Website published successfully''
                                     else ''Website unpublished''))
                      \<lparr>data := PublishData (wid site2) (slug site2) (isPublished site2)
                                 (publishedAt site2)\<rparr>,
                    st\<lparr>websites := updateFirst (\<lambda>w. wid w = wid site) (\<lambda>_. site2) (websites st)\<rparr>)))
      in
        if truthy_str slugReq \<and> slugReq \<noteq> Some (slug site)
        then
          let newSlug = or_str slugReq [] in
          if \<not> validateSlug newSlug
          then (reply 400 False
                  ''Invalid slug format. Use only lowercase letters, numbers, and hyphens'', st)
          else
            (case faults 2 of
               Some e \<Rightarrow> failed e
             | None \<Rightarrow>
                 (case findOne (\<lambda>w. slug w = newSlug \<and> wid w \<noteq> wid site) (websites st) of
                    Some _ \<Rightarrow> (reply 409 False ''This slug is already taken'', st)
                  | None \<Rightarrow> finish (site\<lparr>slug := newSlug\<rparr>)))
        else finish site)"

text \<open>
  \<open>publishWebsite\<close>, for a request body whose \<open>isPublished\<close> is a boolean. Call site 0 is
  \<open>Website.findById\<close>, call site 1 the \<open>Subscription.findOne\<close>.
\<close>

definition publishWebsite ::
  "faults \<Rightarrow> date \<Rightarrow> string \<Rightarrow> bool \<Rightarrow> string option \<Rightarrow> store \<Rightarrow> response \<times> store" where
  "publishWebsite faults now wsId pub slugReq st =
     (if \<not> is_object_id wsId then (reply 400 False ''Invalid website ID'', st)
      else
        (case faults 0 of
           Some e \<Rightarrow> (reply_error 500 ''Error publishing website'' e, st)
         | None \<Rightarrow>
             (case findOne (\<lambda>w. wid w = wsId) (websites st) of
                None \<Rightarrow> (reply 404 False ''Website not found'', st)
              | Some site \<Rightarrow>
                  (case faults 1 of
                     Some e \<Rightarrow> (reply_error 500 ''Error publishing website'' e, st)
                   | None \<Rightarrow>
                       (case findOne (\<lambda>d. userId d = Some (w_userId site) \<and>
                                          websiteId d = Some wsId \<and>
                                          status d = ''active'') (subscriptions st) of
                          None \<Rightarrow>
                            if pub
                            then ((reply 403 False
                                     ''Active subscription required to publish website'')
                                    \<lparr>requiresSubscription := True\<rparr>, st)
                            else publish_update faults now pub slugReq site st
                        | Some sub \<Rightarrow>
                            if pub \<and> currentPeriodEnd sub < now
                            then ((reply 403 False
                                     ''Subscription has expired. Please renew to publish.'')
                                    \<lparr>requiresSubscription := True\<rparr>, st)
                            else publish_update faults now pub slugReq site st)))))"

text \<open>\<open>verifyDNSRecord\<close>: the body of its \<open>try\<close> block is \<open>return true\<close>.\<close>

definition verifyDNSRecord :: "string \<Rightarrow> string \<Rightarrow> bool" where
  "verifyDNSRecord domain targetSlug = True"

text \<open>
  \<open>verifyCustomDomain\<close>: \<open>domain\<close> is the route parameter and \<open>siteid\<close> the query
  parameter. Call site 0 is \<open>Website.findById\<close>, call site 1 the \<open>Subscription.findOne\<close>,
  call site 2 \<open>website.save()\<close>.
\<close>

definition verifyCustomDomain ::
  "faults \<Rightarrow> date \<Rightarrow> string \<Rightarrow> string option \<Rightarrow> store \<Rightarrow> response \<times> store" where
  "verifyCustomDomain faults now domain siteid st =
     (let failed = (\<lambda>e. (reply_error 500 ''Error verifying domain'' e, st));
          wsId = or_str siteid []
      in
        if \<not> truthy_str siteid \<or> \<not> is_object_id wsId
        then (reply 400 False ''Valid website ID is required'', st)
        else
          (case faults 0 of
             Some e \<Rightarrow> failed e
           | None \<Rightarrow>
               (case findOne (\<lambda>w. wid w = wsId) (websites st) of
                  None \<Rightarrow> (reply 404 False ''Website not found'', st)
                | Some site \<Rightarrow>
                    if customDomain site \<noteq> toLowerCase domain
                    then (reply 400 False ''Domain does not match website's custom domain'', st)
                    else
                      (case faults 1 of
                         Some e \<Rightarrow> failed e
                       | None \<Rightarrow>
                           (case findOne (\<lambda>d. userId d = Some (w_userId site) \<and>
                                              websiteId d = Some wsId \<and>
                                              status d = ''active'') (subscriptions st) of
                              None \<Rightarrow>
                                ((reply 403 False
                                    ''Active subscription required to verify custom domain'')
                                   \<lparr>requiresSubscription := True\<rparr>, st)
                            | Some sub \<Rightarrow>
                                if verifyDNSRecord domain (slug site)
                                then
                                  let site2 = site\<lparr>isCustomDomainVerified := True,
                                                   domainVerifiedAt := Some now\<rparr>
                                  in
                                    (case faults 2 of
                                       Some e \<Rightarrow> failed e
                                     | None \<Rightarrow>
                                         ((reply 200 True ''Domain verified successfully'')
                                            \<lparr>data := DomainData domain True (domainVerifiedAt site2)\<rparr>,
                                          st\<lparr>websites := updateFirst (\<lambda>w. wid w = wid site)
                                                            (\<lambda>_. site2) (websites st)\<rparr>))
                                else
                                  ((reply 400 False
                                      ''Domain verification failed. Please check your DNS settings.'')
                                     \<lparr>data := DomainData domain False None\<rparr>, st))))))"



section \<open>Deliveries in sequence\<close>

text \<open>A second delivery to the collection that a first delivery left.\<close>

definition and_then :: "err + 'a \<Rightarrow> ('a \<Rightarrow> err + 'a) \<Rightarrow> err + 'a" where
  "and_then r f = (case r of Inl e \<Rightarrow> Inl e | Inr x \<Rightarrow> f x)"

section \<open>Example data\<close>

definition no_faults :: faults where
  "no_faults = (\<lambda>k. None)"

definition fault_at :: "nat \<Rightarrow> err \<Rightarrow> faults" where
  "fault_at k e = (\<lambda>j. if j = k then Some e else None)"

definition connection_lost :: err where
  "connection_lost = \<lparr>etype = None, ecode = None, emessage = ''connection lost''\<rparr>"

text \<open>
  The error of the provider for a subscription that it does not have: its \<open>code\<close> is
  \<open>resource_missing\<close> and its \<open>type\<close> is that of an invalid request.
\<close>

definition missing_upstream :: err where
  "missing_upstream =
     \<lparr>etype = Some ''StripeInvalidRequestError'', ecode = Some ''resource_missing'',
      emessage = ''No such subscription: sub_1''\<rparr>"

definition example_provider_sub :: "string \<Rightarrow> stripe_subscription" where
  "example_provider_sub st =
     \<lparr>sub_id = ''sub_1'', sub_status = st, current_period_start = 1000,
      current_period_end = 2000, cancel_at_period_end = False, cancel_at = None,
      canceled_at = None, trial_end = None,
      sub_metadata = [(''websiteId'', ''0123456789abcdef01234567''),
                      (''userId'', ''aaaaaaaaaaaaaaaaaaaaaaaa'')],
      items_product = Some ''prod_1''\<rparr>"

definition example_api :: "string \<Rightarrow> stripe_api" where
  "example_api st =
     \<lparr>subscriptions_retrieve = (\<lambda>i. Inr (example_provider_sub st)),
      customers_retrieve = (\<lambda>c. Inr \<lparr>customer_email = Some ''a@b.co''\<rparr>),
      subscriptions_cancel = (\<lambda>i. Inr (example_provider_sub ''canceled'')),
      update_cancel = (\<lambda>i b. Inr ((example_provider_sub st)\<lparr>cancel_at_period_end := b\<rparr>))\<rparr>"

definition example_api_missing :: stripe_api where
  "example_api_missing =
     \<lparr>subscriptions_retrieve = (\<lambda>i. Inl missing_upstream),
      customers_retrieve = (\<lambda>c. Inl missing_upstream),
      subscriptions_cancel = (\<lambda>i. Inl missing_upstream),
      update_cancel = (\<lambda>i b. Inl missing_upstream)\<rparr>"

definition example_session :: checkout_session where
  "example_session =
     \<lparr>session_subscription = Some ''sub_1'', session_customer = Some ''cus_1'',
      session_customer_email = None\<rparr>"

definition example_doc :: "string \<Rightarrow> date \<Rightarrow> subscription" where
  "example_doc st cpe =
     \<lparr>email = Some ''a@b.co'', userId = Some ''aaaaaaaaaaaaaaaaaaaaaaaa'',
      productId = ''prod_1'', websiteId = Some ''0123456789abcdef01234567'',
      subscriptionId = ''sub_1'', status = st, startDate = 1000000,
      currentPeriodEnd = cpe, canceledAt = None, cancelAtPeriodEnd = False,
      trialEnd = None, metadata = [], createdAt = 1000000, updatedAt = 1000000\<rparr>"

definition example_site :: website where
  "example_site =
     \<lparr>wid = ''0123456789abcdef01234567'', w_userId = ''aaaaaaaaaaaaaaaaaaaaaaaa'',
      templateId = ''bbbbbbbbbbbbbbbbbbbbbbbb'', slug = ''my-shop'',
      customDomain = ''shop.example.com'', isPublished = False, publishedAt = None,
      isCustomDomainVerified = False, domainVerifiedAt = None\<rparr>"

definition example_store :: "string \<Rightarrow> date \<Rightarrow> store" where
  "example_store st cpe =
     \<lparr>websites = [example_site], subscriptions = [example_doc st cpe],
      templates = [(''bbbbbbbbbbbbbbbbbbbbbbbb'', 1)]\<rparr>"

definition example_cancel :: cancel_request where
  "example_cancel =
     \<lparr>req_subscriptionId = Some ''sub_1'', req_userId = Some ''aaaaaaaaaaaaaaaaaaaaaaaa'',
      cancelImmediately = False\<rparr>"

section \<open>Facts about the collection operations\<close>

lemmas example_defs =
  no_faults_def fault_at_def connection_lost_def missing_upstream_def
  example_provider_sub_def example_api_def example_api_missing_def example_session_def
  example_doc_def example_site_def example_store_def example_cancel_def

lemmas js_defs =
  truthy_str_def or_str_def or_num_def date_or_null_def date_of_seconds_def
  set_path_def findOne_def findOneAndUpdate_def findOneAndUpsert_def deleteMany_def
  reply_def reply_error_def

lemma find_updateFirst:
  "(\<And>x. p x \<Longrightarrow> p (f x)) \<Longrightarrow> find p (updateFirst p f xs) = map_option f (find p xs)"
  by (induction xs) auto

lemma updateFirst_twice:
  "(\<And>x. p x \<Longrightarrow> p (f x)) \<Longrightarrow>
     updateFirst p g (updateFirst p f xs) = updateFirst p (g \<circ> f) xs"
  by (induction xs) auto

lemma map_key_updateFirst:
  "(\<And>x. k (f x) = k x) \<Longrightarrow> map k (updateFirst p f xs) = map k xs"
  by (induction xs) auto

lemma updateFirst_none: "find p xs = None \<Longrightarrow> updateFirst p f xs = xs"
  by (induction xs) (auto split: if_splits)

lemma find_append_case:
  "find p (xs @ ys) = (case find p xs of None \<Rightarrow> find p ys | Some x \<Rightarrow> Some x)"
  by (induction xs) auto

section \<open>Status normalisation on ingestion\<close>

lemma map_status_normal: "map_status s \<noteq> ''past_due'' \<and> map_status s \<noteq> ''unpaid''"
  by (simp add: map_status_def)

text \<open>
  The update handler and the payment handler store the mapped status, which is never
  \<open>past_due\<close> or \<open>unpaid\<close>.
\<close>

lemma handleSubscriptionUpdated_status:
  assumes "handleSubscriptionUpdated faults now p db = Inr db'"
    and "find (\<lambda>d. subscriptionId d = sub_id p) db' = Some d"
  shows "status d = map_status (sub_status p)"
  using assms
  by (auto simp: handleSubscriptionUpdated_def Let_def findOneAndUpdate_def find_updateFirst
      split: option.splits)

lemma handlePaymentSucceeded_status:
  assumes "handlePaymentSucceeded api faults now i db = Inr db'"
    and "invoice_subscription i = Some sid" and "sid \<noteq> []"
    and "subscriptions_retrieve api sid = Inr p"
    and "find (\<lambda>d. subscriptionId d = sid) db' = Some d"
  shows "status d = map_status (sub_status p)"
  using assms
  by (auto simp: handlePaymentSucceeded_def Let_def findOneAndUpsert_def find_updateFirst
      find_append_case split: option.splits sum.splits)

text \<open>
  C5. Every handler that writes a status derived from the provider's status is claimed to
  store \<open>incomplete\<close> for \<open>past_due\<close> and \<open>unpaid\<close>. The checkout handler writes the
  provider's status as it is: for a checkout event whose subscription the provider reports
  as \<open>past_due\<close>, the document that it inserts has the status \<open>past_due\<close>.
\<close>

theorem handleCheckoutCompleted_stores_past_due:
  "handleCheckoutCompleted (example_api ''past_due'') no_faults 5000 example_session [] =
     Inr [\<lparr>email = Some ''a@b.co'', userId = Some ''aaaaaaaaaaaaaaaaaaaaaaaa'',
           productId = ''prod_1'', websiteId = Some ''0123456789abcdef01234567'',
           subscriptionId = ''sub_1'', status = ''past_due'', startDate = 1000000,
           currentPeriodEnd = 2000000, canceledAt = None, cancelAtPeriodEnd = False,
           trialEnd = None,
           metadata = [(''websiteId'', ''0123456789abcdef01234567''),
                       (''userId'', ''aaaaaaaaaaaaaaaaaaaaaaaa'')],
           createdAt = 5000, updatedAt = 5000\<rparr>]"
  by (simp add: handleCheckoutCompleted_def example_defs js_defs)

theorem handleCheckoutCompleted_stores_past_due_witness:
  "map status
     (case handleCheckoutCompleted (example_api ''past_due'') no_faults 5000 example_session [] of
        Inl e \<Rightarrow> [] | Inr db \<Rightarrow> db) = [''past_due'']"
  using handleCheckoutCompleted_stores_past_due by simp

section \<open>Repeated delivery of a deletion\<close>

text \<open>
  C6, as stated: delivering the same \<open>customer.subscription.deleted\<close> payload twice leaves
  the record that one delivery leaves. For a payload without \<open>canceled_at\<close>, delivered at
  the times 1000 and 2000, the record has \<open>canceledAt = 2000\<close> after the two deliveries and
  \<open>canceledAt = 1000\<close> after the first alone.
\<close>

theorem handleSubscriptionDeleted_twice_counterexample:
  "(case and_then
           (handleSubscriptionDeleted no_faults 1000 (example_provider_sub ''canceled'')
              [example_doc ''active'' 9000])
           (handleSubscriptionDeleted no_faults 2000 (example_provider_sub ''canceled'')) of
      Inl e \<Rightarrow> [] | Inr db \<Rightarrow> map canceledAt db) = [Some 2000]
   \<and> (case handleSubscriptionDeleted no_faults 1000 (example_provider_sub ''canceled'')
              [example_doc ''active'' 9000] of
      Inl e \<Rightarrow> [] | Inr db \<Rightarrow> map canceledAt db) = [Some 1000]"
  by (simp add: handleSubscriptionDeleted_def and_then_def example_defs js_defs)

text \<open>
  C6, amended: two deliveries of the same payload, at the times \<open>t1\<close> and then \<open>t2\<close>, leave
  the collection that a single delivery at \<open>t2\<close> leaves; in it the record of the payload's
  subscription has the status \<open>canceled\<close>, \<open>cancelAtPeriodEnd\<close> false, \<open>canceledAt\<close> from the
  payload's \<open>canceled_at\<close>, or \<open>t2\<close> when the payload has none, and \<open>updatedAt = t2\<close>.
\<close>

theorem handleSubscriptionDeleted_twice:
  "and_then (handleSubscriptionDeleted no_faults t1 p db)
     (handleSubscriptionDeleted no_faults t2 p)
     = handleSubscriptionDeleted no_faults t2 p db
   \<and> (\<exists>db2. handleSubscriptionDeleted no_faults t2 p db = Inr db2 \<and>
        findOne (\<lambda>d. subscriptionId d = sub_id p) db2 =
          map_option
            (\<lambda>d. d\<lparr>status := ''canceled'',
                    canceledAt := Some (case date_or_null (canceled_at p) of
                                          Some c \<Rightarrow> c | None \<Rightarrow> t2),
                    cancelAtPeriodEnd := False, updatedAt := t2\<rparr>)
            (findOne (\<lambda>d. subscriptionId d = sub_id p) db))"
  by (simp add: handleSubscriptionDeleted_def and_then_def no_faults_def Let_def
      findOneAndUpdate_def findOne_def updateFirst_twice comp_def find_updateFirst)

theorem handleSubscriptionDeleted_twice_witness:
  "and_then
     (handleSubscriptionDeleted no_faults 1000 (example_provider_sub ''canceled'')
        [example_doc ''active'' 9000])
     (handleSubscriptionDeleted no_faults 2000 (example_provider_sub ''canceled''))
   = Inr [(example_doc ''active'' 9000)\<lparr>status := ''canceled'', canceledAt := Some 2000,
            cancelAtPeriodEnd := False, updatedAt := 2000\<rparr>]"
  using handleSubscriptionDeleted_twice
          [of 1000 "example_provider_sub ''canceled''" "[example_doc ''active'' 9000]" 2000]
  by (simp add: handleSubscriptionDeleted_def example_defs js_defs)

section \<open>Which handlers create records\<close>

lemma handlePaymentFailed_ids:
  "handlePaymentFailed faults now i db = Inr db' \<Longrightarrow>
     map subscriptionId db' = map subscriptionId db"
  by (auto simp: handlePaymentFailed_def findOneAndUpdate_def map_key_updateFirst
      split: option.splits if_splits)

lemma handleSubscriptionUpdated_ids:
  "handleSubscriptionUpdated faults now p db = Inr db' \<Longrightarrow>
     map subscriptionId db' = map subscriptionId db"
  by (auto simp: handleSubscriptionUpdated_def Let_def findOneAndUpdate_def
      map_key_updateFirst split: option.splits)

lemma handleSubscriptionDeleted_ids:
  "handleSubscriptionDeleted faults now p db = Inr db' \<Longrightarrow>
     map subscriptionId db' = map subscriptionId db"
  by (auto simp: handleSubscriptionDeleted_def Let_def findOneAndUpdate_def
      map_key_updateFirst split: option.splits)

lemma handleTrialWillEnd_same: "handleTrialWillEnd faults now p db = Inr db' \<Longrightarrow> db' = db"
  by (auto simp: handleTrialWillEnd_def split: option.splits)

lemma snd_handleWebhook:
  "snd (handleWebhook api faults now (Inr ev) db) =
     (case dispatch api faults now ev db of Inl e \<Rightarrow> db | Inr db' \<Rightarrow> db')"
  by (simp add: handleWebhook_def split: sum.splits)

text \<open>
  C7. A delivery of any event other than \<open>checkout.session.completed\<close> and
  \<open>invoice.payment_succeeded\<close> leaves the collection with the same subscription ids in the
  same places, whether its handler returns or throws: no record is created. A
  \<open>customer.subscription.deleted\<close> event whose id no record has leaves the collection as
  it is, and its handler returns without throwing (the endpoint answers 200) when the
  database call itself does not reject.
\<close>

theorem only_checkout_and_payment_create:
  "((\<forall>s. ev \<noteq> CheckoutSessionCompleted s) \<and> (\<forall>i. ev \<noteq> InvoicePaymentSucceeded i) \<longrightarrow>
      map subscriptionId (snd (handleWebhook api faults now (Inr ev) db)) = map subscriptionId db)
   \<and> (findOne (\<lambda>d. subscriptionId d = sub_id p) db = None \<longrightarrow>
        snd (handleWebhook api faults now (Inr (CustomerSubscriptionDeleted p)) db) = db
        \<and> (faults 0 = None \<longrightarrow>
             handleSubscriptionDeleted faults now p db = Inr db
             \<and> code (fst (handleWebhook api faults now (Inr (CustomerSubscriptionDeleted p)) db))
                 = 200))"
proof -
  have same_ids:
    "map subscriptionId (snd (handleWebhook api faults now (Inr ev) db)) = map subscriptionId db"
    if "\<forall>s. ev \<noteq> CheckoutSessionCompleted s" "\<forall>i. ev \<noteq> InvoicePaymentSucceeded i"
    using that
    by (cases ev)
      (auto simp: snd_handleWebhook split: sum.splits
        dest: handlePaymentFailed_ids handleSubscriptionUpdated_ids
          handleSubscriptionDeleted_ids handleTrialWillEnd_same)
  have unknown:
    "handleSubscriptionDeleted faults now p db =
       (case faults 0 of Some e \<Rightarrow> Inl e | None \<Rightarrow> Inr db)"
    if "findOne (\<lambda>d. subscriptionId d = sub_id p) db = None"
    using that
    by (simp add: handleSubscriptionDeleted_def Let_def findOneAndUpdate_def findOne_def
        updateFirst_none split: option.splits)
  show ?thesis
    using same_ids unknown by (auto simp: handleWebhook_def split: option.splits)
qed

theorem only_checkout_and_payment_create_witness:
  "map subscriptionId
     (snd (handleWebhook (example_api ''active'') no_faults 5000
        (Inr (CustomerSubscriptionUpdated (example_provider_sub ''active'')))
        [example_doc ''incomplete'' 9000])) = [''sub_1'']
   \<and> findOne (\<lambda>d. subscriptionId d = sub_id (example_provider_sub ''canceled'')) [] = None
   \<and> no_faults 0 = None
   \<and> handleSubscriptionDeleted no_faults 5000 (example_provider_sub ''canceled'') [] = Inr []
   \<and> fst (handleWebhook (example_api ''active'') no_faults 5000
        (Inr (CustomerSubscriptionDeleted (example_provider_sub ''canceled''))) []) =
      \<lparr>code = 200, success = True, message = None, error_msg = None,
       requiresSubscription = False, received = True,
       eventType = Some ''customer.subscription.deleted'',
       hasActiveSubscription = None, data = NoData\<rparr>"
  using only_checkout_and_payment_create
          [of "CustomerSubscriptionUpdated (example_provider_sub ''active'')"
              "example_api ''active''" no_faults 5000 "[example_doc ''incomplete'' 9000]"
              "example_provider_sub ''canceled''"]
        only_checkout_and_payment_create
          [of "CustomerSubscriptionDeleted (example_provider_sub ''canceled'')"
              "example_api ''active''" no_faults 5000 "[]" "example_provider_sub ''canceled''"]
  by (simp add: example_defs js_defs handleWebhook_def handleSubscriptionDeleted_def)

section \<open>Status codes of the webhook endpoint\<close>



section \<open>Cancellation at the end of the period\<close>

lemma example_doc_valid:
  "validate_subscription (example_doc st cpe) \<longleftrightarrow> st \<in> set status_enum"
  by (simp add: validate_subscription_def email_format_def white_space_def example_doc_def)




section \<open>A subscription that the provider does not have\<close>

lemma cancel_catch_code:
  "code (cancel_catch e) =
     (if etype e = Some ''StripeInvalidRequestError'' then 400
      else if ecode e = Some ''resource_missing'' then 404 else 500)"
  by (simp add: cancel_catch_def reply_error_def reply_def)

text \<open>
  C3. The provider's error for an absent subscription has the code \<open>resource_missing\<close>
  and the type of an invalid request. The \<open>catch\<close> block tests the type first, so the
  cancellation answers 400 with the message of an invalid request, not 404.
\<close>

theorem cancelSubscription_missing_upstream:
  "cancelSubscription example_api_missing no_faults 5000 example_cancel
     [example_doc ''active'' 9000] =
     (\<lparr>code = 400, success = False,
       message = Some ''Invalid subscription ID or subscription already canceled'',
       error_msg = Some ''No such subscription: sub_1'',
       requiresSubscription = False, received = False, eventType = None,
       hasActiveSubscription = None, data = NoData\<rparr>, [example_doc ''active'' 9000])"
  by (simp add: cancelSubscription_def cancel_catch_def example_defs js_defs Let_def)

theorem cancelSubscription_missing_upstream_witness:
  "ecode missing_upstream = Some ''resource_missing''
   \<and> code (fst (cancelSubscription example_api_missing no_faults 5000 example_cancel
               [example_doc ''active'' 9000])) = 400"
  using cancelSubscription_missing_upstream by (simp add: missing_upstream_def)

section \<open>The entitlement gates\<close>

lemma example_object_ids:
  "is_object_id ''0123456789abcdef01234567''" "is_object_id ''aaaaaaaaaaaaaaaaaaaaaaaa''"
  by (simp_all add: is_object_id_def)

lemma toLowerCase_example: "toLowerCase ''Shop.Example.com'' = ''shop.example.com''"
  by (simp add: toLowerCase_def lower_char_def)

text \<open>What \<open>checkSubscription\<close> reports: a record of the user and website with the status
  \<open>active\<close> whose period end is not before now.\<close>

lemma checkSubscription_reports:
  assumes "is_object_id u" and "is_object_id w" and "faults 0 = None"
  shows "hasActiveSubscription (checkSubscription faults now u w db) = Some True \<longleftrightarrow>
           (\<exists>d \<in> set db. userId d = Some u \<and> websiteId d = Some w \<and> status d = ''active'' \<and>
              currentPeriodEnd d \<ge> now)"
proof -
  have "hasActiveSubscription (checkSubscription faults now u w db) =
          Some (find (\<lambda>d. userId d = Some u \<and> websiteId d = Some w \<and> status d = ''active'' \<and>
                         currentPeriodEnd d \<ge> now) db \<noteq> None)"
    using assms by (simp add: checkSubscription_def findOne_def split: option.splits)
  then show ?thesis
    by (auto simp: find_None_iff)
qed

text \<open>
  C1. Every gate is claimed to evaluate \<open>status = active\<close> and \<open>currentPeriodEnd > now\<close>,
  which is the schema method \<open>isActive\<close>. The domain verification tests the status only:
  with an active record whose period ended at 1000, at the time 5000, it verifies the
  domain. The entitlement check and the publish gate accept a period end equal to now: with
  a period end of 5000, at the time 5000, the check reports an active subscription and the
  website is published.
\<close>

theorem gates_differ_from_isActive:
  "isActive (example_doc ''active'' 1000) 5000 = False
   \<and> verifyCustomDomain no_faults 5000 ''Shop.Example.com'' (Some ''0123456789abcdef01234567'')
       (example_store ''active'' 1000) =
       ((reply 200 True ''Domain verified successfully'')
          \<lparr>data := DomainData ''Shop.Example.com'' True (Some 5000)\<rparr>,
        (example_store ''active'' 1000)
          \<lparr>websites := [example_site\<lparr>isCustomDomainVerified := True,
                                     domainVerifiedAt := Some 5000\<rparr>]\<rparr>)
   \<and> isActive (example_doc ''active'' 5000) 5000 = False
   \<and> hasActiveSubscription (checkSubscription no_faults 5000 ''aaaaaaaaaaaaaaaaaaaaaaaa''
        ''0123456789abcdef01234567'' [example_doc ''active'' 5000]) = Some True
   \<and> code (fst (publishWebsite no_faults 5000 ''0123456789abcdef01234567'' True None
        (example_store ''active'' 5000))) = 200
   \<and> map isPublished (websites (snd (publishWebsite no_faults 5000
        ''0123456789abcdef01234567'' True None (example_store ''active'' 5000)))) = [True]"
  by (simp add: isActive_def verifyCustomDomain_def checkSubscription_def publishWebsite_def
      publish_update_def verifyDNSRecord_def example_object_ids toLowerCase_example
      example_defs js_defs Let_def)

theorem gates_differ_from_isActive_witness:
  "\<not> isActive (example_doc ''active'' 1000) 5000
   \<and> code (fst (verifyCustomDomain no_faults 5000 ''Shop.Example.com''
        (Some ''0123456789abcdef01234567'') (example_store ''active'' 1000))) = 200"
  using gates_differ_from_isActive by (simp add: reply_def)

section \<open>Deletion of a website\<close>




section \<open>Verification of a custom domain\<close>

text \<open>
  C10, as stated: the verification succeeds whenever a subscription with the status
  \<open>active\<close> exists for the website. The handler looks for a subscription of the website's
  own user: with an active subscription of the website that another user holds, it
  answers 403.
\<close>

theorem verifyCustomDomain_other_user_counterexample:
  "fst (verifyCustomDomain no_faults 5000 ''shop.example.com''
          (Some ''0123456789abcdef01234567'')
          ((example_store ''active'' 9000)
             \<lparr>subscriptions := [(example_doc ''active'' 9000)
                                  \<lparr>userId := Some ''cccccccccccccccccccccccc''\<rparr>]\<rparr>)) =
     (reply 403 False ''Active subscription required to verify custom domain'')
       \<lparr>requiresSubscription := True\<rparr>"
  by (simp add: verifyCustomDomain_def verifyDNSRecord_def example_object_ids toLowerCase_def
      lower_char_def example_defs js_defs Let_def)

text \<open>
  C10, amended: when the website exists, its stored \<open>customDomain\<close> is the lower-case form
  of the supplied domain, a subscription with the status \<open>active\<close> of the website and of
  the website's user exists, and the database calls succeed, the verification answers 200
  and stores \<open>isCustomDomainVerified = true\<close> and \<open>domainVerifiedAt = now\<close>. For every
  request, the answer is not the one of the verification-failed branch.
\<close>

theorem verifyCustomDomain_always_verifies:
  "(is_object_id w \<and> faults 0 = None \<and> faults 1 = None \<and> faults 2 = None
     \<and> findOne (\<lambda>x. wid x = w) (websites st) = Some site
     \<and> customDomain site = toLowerCase domain
     \<and> (\<exists>d \<in> set (subscriptions st).
           userId d = Some (w_userId site) \<and> websiteId d = Some w \<and> status d = ''active'')
     \<longrightarrow> (\<exists>r st'. verifyCustomDomain faults now domain (Some w) st = (r, st') \<and> code r = 200
            \<and> findOne (\<lambda>x. wid x = w) (websites st') =
                 Some (site\<lparr>isCustomDomainVerified := True, domainVerifiedAt := Some now\<rparr>)))
   \<and> message (fst (verifyCustomDomain faults now domain siteid st))
       \<noteq> Some ''Domain verification failed. Please check your DNS settings.''"
proof -
  have reach: "message (fst (verifyCustomDomain faults now domain siteid st))
       \<noteq> Some ''Domain verification failed. Please check your DNS settings.''"
    by (simp add: verifyCustomDomain_def verifyDNSRecord_def Let_def reply_def reply_error_def
        split: option.splits)
  have ok: "\<exists>r st'. verifyCustomDomain faults now domain (Some w) st = (r, st') \<and> code r = 200
            \<and> findOne (\<lambda>x. wid x = w) (websites st') =
                 Some (site\<lparr>isCustomDomainVerified := True, domainVerifiedAt := Some now\<rparr>)"
    if a: "is_object_id w" "faults 0 = None" "faults 1 = None" "faults 2 = None"
      "findOne (\<lambda>x. wid x = w) (websites st) = Some site"
      "customDomain site = toLowerCase domain"
      and b: "\<exists>d \<in> set (subscriptions st).
                userId d = Some (w_userId site) \<and> websiteId d = Some w \<and> status d = ''active''"
  proof -
    have ne: "w \<noteq> []"
      using a(1) by (auto simp: is_object_id_def)
    have wid: "wid site = w"
      using a(5) by (auto simp: findOne_def find_Some_iff)
    from b obtain s where s:
      "find (\<lambda>d. userId d = Some (w_userId site) \<and> websiteId d = Some w \<and> status d = ''active'')
         (subscriptions st) = Some s"
      by (cases "find (\<lambda>d. userId d = Some (w_userId site) \<and> websiteId d = Some w \<and>
                          status d = ''active'') (subscriptions st)")
        (auto simp: find_None_iff)
    show ?thesis
      using a ne wid s
      by (simp add: verifyCustomDomain_def verifyDNSRecord_def Let_def reply_def truthy_str_def
          or_str_def findOne_def find_updateFirst)
  qed
  show ?thesis
    using reach ok by blast
qed

theorem verifyCustomDomain_always_verifies_witness:
  "is_object_id ''0123456789abcdef01234567''
   \<and> findOne (\<lambda>x. wid x = ''0123456789abcdef01234567'') (websites (example_store ''active'' 9000))
       = Some example_site
   \<and> customDomain example_site = toLowerCase ''Shop.Example.com''
   \<and> (\<exists>r st'. verifyCustomDomain no_faults 5000 ''Shop.Example.com''
                   (Some ''0123456789abcdef01234567'') (example_store ''active'' 9000) = (r, st')
         \<and> code r = 200
         \<and> findOne (\<lambda>x. wid x = ''0123456789abcdef01234567'') (websites st') =
             Some (example_site\<lparr>isCustomDomainVerified := True, domainVerifiedAt := Some 5000\<rparr>))"
  using verifyCustomDomain_always_verifies
          [of "''0123456789abcdef01234567''" no_faults "example_store ''active'' 9000"
              example_site "''Shop.Example.com''" 5000]
  by (simp add: example_object_ids toLowerCase_example example_defs js_defs)

section \<open>The bulk entitlement query\<close>





lemma getBulkSubscriptionStatus_rejected:
  "faults 0 = Some e \<Longrightarrow> getBulkSubscriptionStatus faults now u ids db = []"
  by (simp add: getBulkSubscriptionStatus_def split: option.splits)





end
